theory Spec2Isabelle
  imports Complex_Main "HOL-Library.Log_Nat"
begin

section \<open>Python values\<close>

text \<open>
  A Python \<open>str\<close> is a sequence of Unicode code points. Contract texts, keywords and the
  Korean labels the functions return are lists of code points; the dictionary keys
  \<open>category\<close> and \<open>severity\<close> are compared against ASCII literals only and are HOL strings.
\<close>

type_synonym ustr = "nat list"

datatype py_error =
    KeyError string
  | TypeError
  | ValueError

text \<open>\<open>d.get(k, default)\<close> on a dictionary.\<close>

definition dict_get :: "('k \<rightharpoonup> 'v) \<Rightarrow> 'k \<Rightarrow> 'v \<Rightarrow> 'v" where
  "dict_get d k dflt = (case d k of None \<Rightarrow> dflt | Some v \<Rightarrow> v)"

text \<open>
  The dictionaries the scoring functions receive (findings and power items). A key that
  is absent from the dictionary is \<open>None\<close>; the code reads \<open>category\<close> and \<open>severity\<close> and
  carries the other keys along.
\<close>

record item =
  category :: "string option"
  severity :: "string option"
  matched_text :: "ustr option"
  location :: "ustr option"
  item_text :: "ustr option"

definition item_get :: "'a option \<Rightarrow> 'a \<Rightarrow> 'a" where
  "item_get field dflt = (case field of None \<Rightarrow> dflt | Some v \<Rightarrow> v)"

section \<open>Double-precision arithmetic\<close>

text \<open>
  Python floats are IEEE 754 binary64 values. A finite double is a rational number; an
  arithmetic operation returns the exact result rounded to 53 significant bits, ties to
  even (\<open>fl\<close>). Overflow and subnormal results do not occur at the magnitudes the scoring
  functions reach and are not modelled. A decimal literal such as \<open>1.2\<close> denotes
  \<open>fl (12 / 10)\<close>.
\<close>

definition round_half_even :: "rat \<Rightarrow> int" where
  "round_half_even x =
     (let f = \<lfloor>x\<rfloor>; r = x - of_int f
      in if r < 1 / 2 then f else if 1 / 2 < r then f + 1 else if even f then f else f + 1)"

text \<open>The binary exponent \<open>e\<close> of a positive rational: \<open>2 ^ e \<le> x < 2 ^ (e + 1)\<close>.\<close>

definition binexp :: "rat \<Rightarrow> int" where
  "binexp x = (case quotient_of x of (n, d) \<Rightarrow>
                 let k = bitlen n - bitlen d in if 2 powi k \<le> x then k else k - 1)"

definition fl :: "rat \<Rightarrow> rat" where
  "fl x = (if x = 0 then 0
           else let u = 2 powi (binexp \<bar>x\<bar> - 52)
                in sgn x * of_int (round_half_even (\<bar>x\<bar> / u)) * u)"

definition fmul :: "rat \<Rightarrow> rat \<Rightarrow> rat" where
  "fmul a b = fl (a * b)"

definition fdiv :: "rat \<Rightarrow> rat \<Rightarrow> rat" where
  "fdiv a b = fl (a / b)"

text \<open>\<open>int(x)\<close> on a float truncates toward zero; \<open>round(x)\<close> rounds half to even.\<close>

definition py_int :: "rat \<Rightarrow> int" where
  "py_int x = (if 0 \<le> x then \<lfloor>x\<rfloor> else \<lceil>x\<rceil>)"

definition py_round :: "rat \<Rightarrow> int" where
  "py_round x = round_half_even x"

section \<open>risk_calculator.py\<close>

definition RISK_WEIGHTS :: "string \<rightharpoonup> int" where
  "RISK_WEIGHTS =
     [''unilateral_termination'' \<mapsto> 30,
      ''excessive_damages'' \<mapsto> 25,
      ''copyright_transfer'' \<mapsto> 20,
      ''unclear_scope'' \<mapsto> 15,
      ''payment_delay'' \<mapsto> 10]"

definition SEVERITY_MULTIPLIER :: "string \<rightharpoonup> rat" where
  "SEVERITY_MULTIPLIER =
     [''critical'' \<mapsto> fl (15 / 10),
      ''high'' \<mapsto> fl (12 / 10),
      ''medium'' \<mapsto> fl (10 / 10),
      ''low'' \<mapsto> fl (7 / 10)]"

text \<open>The grade labels: \<open>F (...)\<close>, \<open>D (...)\<close>, \<open>C (...)\<close>, \<open>B (...)\<close>, \<open>A (...)\<close>.\<close>

definition grade_F :: ustr where
  "grade_F = [70, 32, 40, 47588, 50864, 32, 50948, 54744, 41]"

definition grade_D :: ustr where
  "grade_D = [68, 32, 40, 50948, 54744, 41]"

definition grade_C :: ustr where
  "grade_C = [67, 32, 40, 51452, 51032, 32, 54596, 50836, 41]"

definition grade_B :: ustr where
  "grade_B = [66, 32, 40, 48372, 53685, 41]"

definition grade_A :: ustr where
  "grade_A = [65, 32, 40, 50504, 51204, 41]"

definition calculate_grade :: "int \<Rightarrow> ustr" where
  "calculate_grade score =
     (if score \<ge> 80 then grade_F
      else if score \<ge> 60 then grade_D
      else if score \<ge> 40 then grade_C
      else if score \<ge> 20 then grade_B
      else grade_A)"

record risk_result =
  total_score :: int
  grade :: ustr
  category_scores :: "string \<rightharpoonup> int"
  findings_with_impact :: "(item \<times> int) list"

text \<open>The impact of one finding: \<open>int(base_weight * multiplier)\<close>.\<close>

definition impact_of :: "item \<Rightarrow> int" where
  "impact_of finding =
     (let category = item_get (category finding) '''';
          severity = item_get (severity finding) ''medium'';
          base_weight = dict_get RISK_WEIGHTS category 10;
          multiplier = dict_get SEVERITY_MULTIPLIER severity (fl 1)
      in py_int (fmul (of_int base_weight) multiplier))"

text \<open>
  The body of the \<open>for\<close> loop, on the state
  \<open>(total_score, category_scores, findings_with_impact)\<close>.
\<close>

fun risk_loop ::
  "item list \<Rightarrow> int \<times> (string \<rightharpoonup> int) \<times> (item \<times> int) list
     \<Rightarrow> int \<times> (string \<rightharpoonup> int) \<times> (item \<times> int) list" where
  "risk_loop [] st = st"
| "risk_loop (finding # rest) (tot, cat_scores, with_impact) =
     (let category = item_get (category finding) '''';
          impact_score = impact_of finding;
          cat_scores' = (case cat_scores category of
                           Some v \<Rightarrow> cat_scores(category \<mapsto> v + impact_score)
                         | None \<Rightarrow> cat_scores(category \<mapsto> impact_score))
      in risk_loop rest
           (tot + impact_score, cat_scores', with_impact @ [(finding, impact_score)]))"

definition calculate_risk_score :: "item list \<Rightarrow> risk_result" where
  "calculate_risk_score findings =
     (if findings = [] then
        \<lparr>total_score = 0, grade = grade_A, category_scores = Map.empty,
         findings_with_impact = []\<rparr>
      else
        (case risk_loop findings (0, Map.empty, []) of
           (tot, cat_scores, with_impact) \<Rightarrow>
             let capped = min tot 100
             in \<lparr>total_score = capped, grade = calculate_grade capped,
                 category_scores = cat_scores, findings_with_impact = with_impact\<rparr>))"

section \<open>String operations\<close>

text \<open>
  \<open>s.count(sub)\<close>: the number of non-overlapping occurrences of \<open>sub\<close> in \<open>s\<close>, scanning
  from the left; for the empty \<open>sub\<close> it is \<open>len(s) + 1\<close>.
\<close>

fun count_from :: "ustr \<Rightarrow> ustr \<Rightarrow> nat" where
  "count_from sub [] = 0"
| "count_from sub (c # cs) =
     (if take (length sub) (c # cs) = sub
      then 1 + count_from sub (drop (length sub - 1) cs)
      else count_from sub cs)"

definition str_count :: "ustr \<Rightarrow> ustr \<Rightarrow> nat" where
  "str_count s sub = (if sub = [] then length s + 1 else count_from sub s)"

text \<open>\<open>sum(s.count(keyword) for keyword in keywords)\<close>.\<close>

definition keyword_count :: "ustr \<Rightarrow> ustr list \<Rightarrow> nat" where
  "keyword_count s keywords = sum_list (map (str_count s) keywords)"

text \<open>
  \<open>s.split(sep)\<close> for a separator of one character. The result always has a first
  piece, the one before the first separator.
\<close>

fun str_split :: "nat \<Rightarrow> ustr \<Rightarrow> ustr list" where
  "str_split sep [] = [[]]"
| "str_split sep (c # cs) =
     (let r = str_split sep cs
      in if c = sep then [] # r else (c # hd r) # tl r)"

text \<open>The characters \<open>str.strip()\<close> removes: those for which \<open>str.isspace\<close> holds.\<close>

definition is_space :: "nat \<Rightarrow> bool" where
  "is_space c \<longleftrightarrow>
     (9 \<le> c \<and> c \<le> 13) \<or> (28 \<le> c \<and> c \<le> 32) \<or> c = 133 \<or> c = 160 \<or> c = 5760
     \<or> (8192 \<le> c \<and> c \<le> 8202) \<or> c = 8232 \<or> c = 8233 \<or> c = 8239 \<or> c = 8287
     \<or> c = 12288"

definition str_strip :: "ustr \<Rightarrow> ustr" where
  "str_strip s = rev (dropWhile is_space (rev (dropWhile is_space s)))"

text \<open>\<open>[s[i:i+n] for i in range(0, len(s), n)]\<close> for a positive step \<open>n\<close>.\<close>

fun slices :: "nat \<Rightarrow> ustr \<Rightarrow> ustr list" where
  "slices n s = (if n = 0 \<or> s = [] then [] else take n s # slices n (drop n s))"

section \<open>power_analyzer.py\<close>

definition EMPLOYER_RIGHTS_KEYWORDS :: "ustr list" where
  "EMPLOYER_RIGHTS_KEYWORDS =
     [[54644, 51648, 54624, 32, 49688, 32, 51080, 45796],
      [48320, 44221, 54624, 32, 49688, 32, 51080, 45796],
      [50836, 44396, 54624, 32, 49688, 32, 51080, 45796],
      [44208, 51221, 54620, 45796],
      [51648, 49884, 54620, 45796],
      [49849, 51064],
      [44144, 48512, 54624, 32, 49688, 32, 51080, 45796],
      [51473, 45800, 54624, 32, 49688, 32, 51080, 45796],
      [50836, 52397, 54624, 32, 49688, 32, 51080, 45796]]"

definition EMPLOYEE_OBLIGATIONS_KEYWORDS :: "ustr list" where
  "EMPLOYEE_OBLIGATIONS_KEYWORDS =
     [[54616, 50668, 50556, 32, 54620, 45796],
      [51032, 47924, 47484, 32, 51652, 45796],
      [52293, 51076, 51012, 32, 51652, 45796],
      [48176, 49345],
      [44552, 51648],
      [51228, 54620],
      [49849, 51064, 51012, 32, 48155, 50500, 50556],
      [53685, 48372, 54616, 50668, 50556],
      [51456, 49688, 54616, 50668, 50556]]"

text \<open>The characters \<open>U+C81C\<close> and \<open>U+C870\<close> that mark a numbered article.\<close>

definition article_je :: nat where
  "article_je = 51228"

definition article_jo :: nat where
  "article_jo = 51312"

text \<open>The six power levels, from absolute employer dominance to employee favoured.\<close>

definition level_absolute :: ustr where
  "level_absolute =
     [44049, 32, 51208, 45824, 50864, 50948, 32, 40, 44537, 46020, 47196, 32, 48520, 44277,
      51221, 41]"

definition level_dominance :: ustr where
  "level_dominance = [44049, 32, 50864, 50948, 32, 40, 47588, 50864, 32, 48520, 44277, 51221, 41]"

definition level_favored :: ustr where
  "level_favored = [44049, 32, 50864, 50948, 32, 40, 48520, 44277, 51221, 41]"

definition level_slightly :: ustr where
  "level_slightly = [50557, 44036, 32, 44049, 32, 50864, 50948]"

definition level_balanced :: ustr where
  "level_balanced = [44512, 54805, 51201]"

definition level_employee :: ustr where
  "level_employee = [51012, 32, 50864, 50948, 32, 40, 46300, 47928, 32, 44221, 50864, 41]"

definition determine_power_level :: "rat \<Rightarrow> ustr \<times> int" where
  "determine_power_level ratio =
     (if ratio > 3 then (level_absolute, 10)
      else if ratio > 2 then (level_dominance, 30)
      else if ratio > fl (15 / 10) then (level_favored, 50)
      else if ratio > fl (12 / 10) then (level_slightly, 70)
      else if ratio \<ge> fl (8 / 10) then (level_balanced, 90)
      else (level_employee, 95))"

text \<open>
  The advice strings of \<open>_generate_recommendations\<close>, one constructor for each literal in
  the order of the source; the two count warnings carry the count their f-string prints.
\<close>

datatype recommendation =
    Urgent_extremely_unfair
  | Suggest_mutual_termination
  | Suggest_damages_cap
  | Suggest_specify_scope
  | Caution_considerably_unfair
  | Suggest_renegotiate_core
  | Suggest_termination_mutual_clause
  | Review_some_clauses
  | Suggest_pick_two_or_three
  | Safe_relatively_balanced
  | Warn_too_many_obligations int
  | Warn_too_few_employer_duties int

definition generate_recommendations :: "rat \<Rightarrow> int \<Rightarrow> int \<Rightarrow> recommendation list" where
  "generate_recommendations ratio employer_count employee_count =
     (if ratio > fl (25 / 10) then
        [Urgent_extremely_unfair, Suggest_mutual_termination, Suggest_damages_cap,
         Suggest_specify_scope]
      else if ratio > 2 then
        [Caution_considerably_unfair, Suggest_renegotiate_core,
         Suggest_termination_mutual_clause]
      else if ratio > fl (15 / 10) then [Review_some_clauses, Suggest_pick_two_or_three]
      else [Safe_relatively_balanced])
     @ (if employee_count > 30 then [Warn_too_many_obligations employee_count] else [])
     @ (if employer_count < 5 \<and> employee_count > 10
        then [Warn_too_few_employer_duties employer_count] else [])"

text \<open>
  \<open>round(x, ndigits)\<close>: an \<open>int\<close> is returned as it is; a float is rounded half to even at
  \<open>ndigits\<close> decimals and the nearest double is returned.
\<close>

definition py_round_nd :: "rat \<Rightarrow> nat \<Rightarrow> rat" where
  "py_round_nd x ndigits =
     (if of_int \<lfloor>x\<rfloor> = x then x
      else fl (of_int (round_half_even (x * 10 ^ ndigits)) / 10 ^ ndigits))"

record power_result =
  balance_ratio :: rat
  power_level :: ustr
  employer_rights_count :: int
  employee_obligations_count :: int
  fairness_score :: int
  recommendations :: "recommendation list"
  processing_method :: "string option"

text \<open>
  What the text-driven analyses return: the dictionary \<open>{"error": message}\<close> or a result.
\<close>

datatype outcome =
    Error_record ustr
  | Analysis power_result

definition no_content_message :: ustr where
  "no_content_message =
     [44228, 50557, 49436, 32, 45236, 50857, 51060, 32, 50630, 49845, 45768, 45796]"

text \<open>
  The balance ratio of two counts and the result built from it; common to
  \<open>analyze_power_balance\<close>, \<open>analyze_power_balance_chunked\<close> and
  \<open>calculate_power_balance_from_counts\<close>.
\<close>

definition balance_of :: "rat \<Rightarrow> rat \<Rightarrow> rat" where
  "balance_of employer employee = (if employer = 0 then employee else fdiv employee employer)"

definition result_of_counts :: "int \<Rightarrow> int \<Rightarrow> string option \<Rightarrow> power_result" where
  "result_of_counts employer_count employee_count method =
     (let ratio = balance_of (of_int employer_count) (of_int employee_count);
          (level, fairness) = determine_power_level ratio
      in \<lparr>balance_ratio = py_round_nd ratio 2, power_level = level,
          employer_rights_count = employer_count,
          employee_obligations_count = employee_count,
          fairness_score = fairness,
          recommendations = generate_recommendations ratio employer_count employee_count,
          processing_method = method\<rparr>)"

text \<open>The chunks of a long text, and the counts summed over the chunks that are not blank.\<close>

definition chunks_of :: "ustr \<Rightarrow> int \<Rightarrow> py_error + ustr list" where
  "chunks_of contract_text chunk_size =
     (if article_je \<in> set contract_text \<and> article_jo \<in> set contract_text
      then Inr (str_split article_je contract_text)
      else if chunk_size = 0 then Inl ValueError
      else if chunk_size < 0 then Inr []
      else Inr (slices (nat chunk_size) contract_text))"

fun chunk_loop :: "ustr list \<Rightarrow> nat \<times> nat \<Rightarrow> nat \<times> nat" where
  "chunk_loop [] totals = totals"
| "chunk_loop (chunk # rest) (total_employer, total_employee) =
     (if str_strip chunk = [] then chunk_loop rest (total_employer, total_employee)
      else chunk_loop rest
             (total_employer + keyword_count chunk EMPLOYER_RIGHTS_KEYWORDS,
              total_employee + keyword_count chunk EMPLOYEE_OBLIGATIONS_KEYWORDS))"

function analyze_power_balance :: "ustr option \<Rightarrow> py_error + outcome"
  and analyze_power_balance_chunked :: "ustr option \<Rightarrow> int \<Rightarrow> py_error + outcome" where
  "analyze_power_balance contract_text =
     (case contract_text of
        None \<Rightarrow> Inr (Error_record no_content_message)
      | Some t \<Rightarrow>
          if t = [] then Inr (Error_record no_content_message)
          else if length t > 1000 then analyze_power_balance_chunked contract_text 500
          else Inr (Analysis (result_of_counts
                                (int (keyword_count t EMPLOYER_RIGHTS_KEYWORDS))
                                (int (keyword_count t EMPLOYEE_OBLIGATIONS_KEYWORDS)) None)))"
| "analyze_power_balance_chunked contract_text chunk_size =
     (case contract_text of
        None \<Rightarrow> Inl TypeError
      | Some t \<Rightarrow>
          if int (length t) \<le> chunk_size then analyze_power_balance contract_text
          else (case chunks_of t chunk_size of
                  Inl e \<Rightarrow> Inl e
                | Inr chunks \<Rightarrow>
                    (case chunk_loop chunks (0, 0) of
                       (total_employer, total_employee) \<Rightarrow>
                         Inr (Analysis (result_of_counts (int total_employer)
                                          (int total_employee) (Some ''chunked''))))))"
  by pat_completeness auto
termination
  by (relation "measure (\<lambda>x. case x of
          Inl None \<Rightarrow> 0
        | Inl (Some t) \<Rightarrow> (if length t > 1000 then 1 else 2)
        | Inr (None, n) \<Rightarrow> 0
        | Inr (Some t, n) \<Rightarrow> (if int (length t) \<le> n then 3 else 0))") auto

definition calculate_power_balance_from_counts :: "int \<Rightarrow> int \<Rightarrow> power_result" where
  "calculate_power_balance_from_counts employer_count employee_count =
     result_of_counts employer_count employee_count None"

text \<open>
  \<open>calculate_power_balance_weighted\<close>: the weights \<open>3.0\<close>, \<open>2.0\<close>, \<open>1.0\<close>, \<open>0.5\<close>, summed by
  \<open>sum\<close> from the left starting at \<open>0\<close>. All partial sums are multiples of \<open>0.5\<close> and
  exact in double precision for any list that fits in memory, so that the order and the
  method of the summation do not matter.
\<close>

definition fadd :: "rat \<Rightarrow> rat \<Rightarrow> rat" where
  "fadd a b = fl (a + b)"

definition pa_severity_weights :: "string \<rightharpoonup> rat" where
  "pa_severity_weights =
     [''critical'' \<mapsto> fl 3, ''high'' \<mapsto> fl 2, ''medium'' \<mapsto> fl 1, ''low'' \<mapsto> fl (5 / 10)]"

definition weighted_sum :: "item list \<Rightarrow> rat" where
  "weighted_sum items =
     foldl (\<lambda>acc it. fadd acc (dict_get pa_severity_weights
                                  (item_get (severity it) ''medium'') (fl 1))) 0 items"

text \<open>\<open>_analyze_severity_breakdown\<close>: one counter dictionary for each side.\<close>

definition breakdown_init :: "string \<rightharpoonup> nat" where
  "breakdown_init = [''critical'' \<mapsto> 0, ''high'' \<mapsto> 0, ''medium'' \<mapsto> 0, ''low'' \<mapsto> 0]"

fun breakdown_loop :: "item list \<Rightarrow> (string \<rightharpoonup> nat) \<Rightarrow> (string \<rightharpoonup> nat)" where
  "breakdown_loop [] counts = counts"
| "breakdown_loop (it # rest) counts =
     (let severity = item_get (severity it) ''medium''
      in breakdown_loop rest (counts(severity \<mapsto> dict_get counts severity 0 + 1)))"

definition analyze_severity_breakdown ::
  "item list \<Rightarrow> item list \<Rightarrow> (string \<rightharpoonup> nat) \<times> (string \<rightharpoonup> nat)" where
  "analyze_severity_breakdown employer_items employee_items =
     (breakdown_loop employer_items breakdown_init,
      breakdown_loop employee_items breakdown_init)"

record weighted_power_result = power_result +
  employer_weighted_score :: rat
  employee_weighted_score :: rat
  severity_breakdown :: "(string \<rightharpoonup> nat) \<times> (string \<rightharpoonup> nat)"

definition calculate_power_balance_weighted ::
  "item list \<Rightarrow> item list \<Rightarrow> weighted_power_result" where
  "calculate_power_balance_weighted employer_items employee_items =
     (let employer_weighted = weighted_sum employer_items;
          employee_weighted = weighted_sum employee_items;
          employer_count = int (length employer_items);
          employee_count = int (length employee_items);
          ratio = balance_of employer_weighted employee_weighted;
          (level, fairness) = determine_power_level ratio
      in \<lparr>balance_ratio = py_round_nd ratio 2, power_level = level,
          employer_rights_count = employer_count,
          employee_obligations_count = employee_count,
          fairness_score = fairness,
          recommendations = generate_recommendations ratio employer_count employee_count,
          processing_method = None,
          employer_weighted_score = py_round_nd employer_weighted 1,
          employee_weighted_score = py_round_nd employee_weighted 1,
          severity_breakdown = analyze_severity_breakdown employer_items employee_items\<rparr>)"

section \<open>index.py\<close>

text \<open>
  The fields of the results of \<open>index.py\<close> carry the prefix \<open>ix\<close> where the name is also a
  field of a result of the other two modules. The constant table \<open>category_names\<close> and the
  formatted sentences \<open>analysis\<close> and \<open>recommendation\<close>, which only echo the values below,
  are left out of the results.
\<close>

definition risk_severity_weights :: "string \<rightharpoonup> int" where
  "risk_severity_weights = [''critical'' \<mapsto> 10, ''high'' \<mapsto> 7, ''medium'' \<mapsto> 4, ''low'' \<mapsto> 2]"

definition severity_counts_init :: "string \<rightharpoonup> nat" where
  "severity_counts_init = [''critical'' \<mapsto> 0, ''high'' \<mapsto> 0, ''medium'' \<mapsto> 0, ''low'' \<mapsto> 0]"

text \<open>
  The loop of \<open>analyze_contract_risk\<close> on the state
  \<open>(total_score, category_counts, severity_counts)\<close>. The statement
  \<open>severity_counts[severity] += 1\<close> reads the key first and raises \<open>KeyError\<close> when the
  dictionary does not have it.
\<close>

fun contract_risk_loop ::
  "item list \<Rightarrow> int \<times> (string \<rightharpoonup> nat) \<times> (string \<rightharpoonup> nat)
     \<Rightarrow> py_error + (int \<times> (string \<rightharpoonup> nat) \<times> (string \<rightharpoonup> nat))" where
  "contract_risk_loop [] st = Inr st"
| "contract_risk_loop (finding # rest) (tot, cat_counts, sev_counts) =
     (let severity = item_get (severity finding) ''low'';
          category = item_get (category finding) '''';
          tot' = tot + dict_get risk_severity_weights severity 0;
          cat_counts' = cat_counts(category \<mapsto> dict_get cat_counts category 0 + 1)
      in case sev_counts severity of
           None \<Rightarrow> Inl (KeyError severity)
         | Some n \<Rightarrow>
             contract_risk_loop rest (tot', cat_counts', sev_counts(severity \<mapsto> n + 1)))"

definition risk_very_dangerous :: ustr where
  "risk_very_dangerous = [47588, 50864, 32, 50948, 54744]"

definition risk_dangerous :: ustr where
  "risk_dangerous = [50948, 54744]"

definition risk_caution :: ustr where
  "risk_caution = [51452, 51032]"

definition risk_good :: ustr where
  "risk_good = [50577, 54840]"

datatype risk_advice =
    Expert_review_recommended
  | Careful_review_needed
  | Request_amendments
  | Consider_legal_advice

record contract_risk_result =
  ix_total_score :: int
  risk_level :: ustr
  risk_color :: string
  findings_count :: nat
  severity_counts :: "string \<rightharpoonup> nat"
  category_counts :: "string \<rightharpoonup> nat"
  ix_recommendations :: "risk_advice option list"

definition analyze_contract_risk :: "item list \<Rightarrow> py_error + contract_risk_result" where
  "analyze_contract_risk findings =
     (case contract_risk_loop findings (0, Map.empty, severity_counts_init) of
        Inl e \<Rightarrow> Inl e
      | Inr (tot, cat_counts, sev_counts) \<Rightarrow>
          let (level, color) =
                (if tot \<ge> 30 then (risk_very_dangerous, ''red'')
                 else if tot \<ge> 20 then (risk_dangerous, ''orange'')
                 else if tot \<ge> 10 then (risk_caution, ''yellow'')
                 else (risk_good, ''green''))
          in Inr \<lparr>ix_total_score = tot, risk_level = level, risk_color = color,
                  findings_count = length findings,
                  severity_counts = sev_counts, category_counts = cat_counts,
                  ix_recommendations =
                    [Some (if tot \<ge> 20 then Expert_review_recommended
                           else Careful_review_needed),
                     (if dict_get sev_counts ''critical'' 0 > 0
                      then Some Request_amendments else None),
                     (if tot \<ge> 30 then Some Consider_legal_advice else None)]\<rparr>)"

definition employer_keywords :: "ustr list" where
  "employer_keywords =
     [[44049, 51008],
      [44049, 51060],
      [48156, 51452, 51088, 45716],
      [48156, 51452, 51088, 44032],
      [54924, 49324, 45716],
      [54924, 49324, 44032],
      [51076, 51032, 47196],
      [51068, 48169, 51201, 51004, 47196],
      [50616, 51228, 46304, 51648],
      [51593, 49884],
      [53685, 48372, 32, 50630, 51060],
      [54644, 51648, 54624, 32, 49688, 32, 51080, 45796],
      [51473, 45800, 54624, 32, 49688, 32, 51080, 45796],
      [48320, 44221, 54624, 32, 49688, 32, 51080, 45796],
      [51648, 49884],
      [47749, 47161],
      [50836, 44396],
      [49849, 51064],
      [44208, 51221]]"

definition employee_keywords :: "ustr list" where
  "employee_keywords =
     [[51012, 51008],
      [51012, 51060],
      [49688, 44553, 51088, 45716],
      [49688, 44553, 51088, 44032],
      [54532, 47532, 47004, 49436, 45716],
      [54532, 47532, 47004, 49436, 44032],
      [48152, 46300, 49884],
      [51032, 47924],
      [52293, 51076],
      [51456, 49688],
      [51060, 54665],
      [51228, 52636],
      [48176, 49345],
      [49552, 54644],
      [50948, 50557, 44552],
      [48268, 44552],
      [44552, 51648],
      [51228, 54620],
      [48520, 44032],
      [54624, 32, 49688, 32, 50630, 45796]]"

text \<open>The five balance levels, from very unfavourable to the employee downwards.\<close>

definition very_unfavorable_to_employee :: ustr where
  "very_unfavorable_to_employee = [51012, 50640, 44172, 32, 47588, 50864, 32, 48520, 47532]"

definition unfavorable_to_employee :: ustr where
  "unfavorable_to_employee = [51012, 50640, 44172, 32, 48520, 47532]"

definition balanced :: ustr where
  "balanced = [44512, 54805, 51201]"

definition unfavorable_to_employer :: ustr where
  "unfavorable_to_employer = [44049, 50640, 44172, 32, 48520, 47532]"

definition very_unfavorable_to_employer :: ustr where
  "very_unfavorable_to_employer = [44049, 50640, 44172, 32, 47588, 50864, 32, 48520, 47532]"

text \<open>
  \<open>round((part / total) * 100)\<close>, or \<open>50\<close> when \<open>total\<close> is \<open>0\<close>: a true division of two
  integers, a multiplication of doubles, and \<open>round\<close>. The four balance functions of
  \<open>index.py\<close> repeat this computation and the chain of thresholds after it.
\<close>

definition percentage_score :: "int \<Rightarrow> int \<Rightarrow> int" where
  "percentage_score part whole =
     (if whole = 0 then 50 else py_round (fmul (fdiv (of_int part) (of_int whole)) 100))"

definition balance_level_of :: "int \<Rightarrow> ustr \<times> string" where
  "balance_level_of score =
     (if score \<ge> 70 then (very_unfavorable_to_employee, ''red'')
      else if score \<ge> 60 then (unfavorable_to_employee, ''orange'')
      else if score \<ge> 40 then (balanced, ''green'')
      else if score \<ge> 30 then (unfavorable_to_employer, ''orange'')
      else (very_unfavorable_to_employer, ''red''))"

record balance_result =
  balance_score :: int
  balance_level :: ustr
  balance_color :: string
  ix_employer_rights_count :: int
  ix_employee_obligations_count :: int

definition index_analyze_power_balance :: "ustr \<Rightarrow> balance_result" where
  "index_analyze_power_balance contract_text =
     (let employer_count = int (keyword_count contract_text employer_keywords);
          employee_count = int (keyword_count contract_text employee_keywords);
          score = percentage_score employee_count (employer_count + employee_count);
          (level, color) = balance_level_of score
      in \<lparr>balance_score = score, balance_level = level, balance_color = color,
          ix_employer_rights_count = employer_count,
          ix_employee_obligations_count = employee_count\<rparr>)"

definition calculate_power_score :: "int \<Rightarrow> int \<Rightarrow> balance_result" where
  "calculate_power_score employee_obligations employer_rights =
     (let score = percentage_score employee_obligations
                    (employee_obligations + employer_rights);
          (level, color) = balance_level_of score
      in \<lparr>balance_score = score, balance_level = level, balance_color = color,
          ix_employer_rights_count = employer_rights,
          ix_employee_obligations_count = employee_obligations\<rparr>)"

text \<open>\<open>analyze_power_balance_weighted\<close>: integer weights and two counting loops.\<close>

definition ix_severity_weights :: "string \<rightharpoonup> int" where
  "ix_severity_weights = [''critical'' \<mapsto> 4, ''high'' \<mapsto> 3, ''medium'' \<mapsto> 2, ''low'' \<mapsto> 1]"

definition ix_weighted_sum :: "item list \<Rightarrow> int" where
  "ix_weighted_sum items =
     sum_list (map (\<lambda>it. dict_get ix_severity_weights
                            (item_get (severity it) ''medium'') 2) items)"

fun severity_count_loop ::
  "item list \<Rightarrow> (string \<rightharpoonup> nat) \<Rightarrow> py_error + (string \<rightharpoonup> nat)" where
  "severity_count_loop [] counts = Inr counts"
| "severity_count_loop (it # rest) counts =
     (let severity = item_get (severity it) ''medium''
      in case counts severity of
           None \<Rightarrow> Inl (KeyError severity)
         | Some n \<Rightarrow> severity_count_loop rest (counts(severity \<mapsto> n + 1)))"

record weighted_balance_result = balance_result +
  ix_employer_weighted_score :: int
  ix_employee_weighted_score :: int
  employer_severity_breakdown :: "string \<rightharpoonup> nat"
  employee_severity_breakdown :: "string \<rightharpoonup> nat"
  employer_items_sample :: "item list"
  employee_items_sample :: "item list"

definition analyze_power_balance_weighted ::
  "item list \<Rightarrow> item list \<Rightarrow> py_error + weighted_balance_result" where
  "analyze_power_balance_weighted employee_items employer_items =
     (let employer_score = ix_weighted_sum employer_items;
          employee_score = ix_weighted_sum employee_items;
          score = percentage_score employee_score (employer_score + employee_score);
          (level, color) = balance_level_of score
      in case severity_count_loop employee_items severity_counts_init of
           Inl e \<Rightarrow> Inl e
         | Inr employee_severity \<Rightarrow>
             (case severity_count_loop employer_items severity_counts_init of
                Inl e \<Rightarrow> Inl e
              | Inr employer_severity \<Rightarrow>
                  Inr \<lparr>balance_score = score, balance_level = level, balance_color = color,
                        ix_employer_rights_count = int (length employer_items),
                        ix_employee_obligations_count = int (length employee_items),
                        ix_employer_weighted_score = employer_score,
                        ix_employee_weighted_score = employee_score,
                        employer_severity_breakdown = employer_severity,
                        employee_severity_breakdown = employee_severity,
                        employer_items_sample = take 5 employer_items,
                        employee_items_sample = take 5 employee_items\<rparr>))"

section \<open>Notions the properties are stated with\<close>

text \<open>The severity order \<open>low < medium < high < critical\<close>.\<close>

definition severity_level :: "string \<Rightarrow> nat option" where
  "severity_level s =
     (if s = ''low'' then Some 0 else if s = ''medium'' then Some 1
      else if s = ''high'' then Some 2 else if s = ''critical'' then Some 3 else None)"

text \<open>The position of a grade label between \<open>A\<close> (0) and \<open>F\<close> (4).\<close>

definition grade_rank :: "ustr \<Rightarrow> nat" where
  "grade_rank g =
     (if g = grade_A then 0 else if g = grade_B then 1 else if g = grade_C then 2
      else if g = grade_D then 3 else 4)"

text \<open>The impact as a function of the base weight and the severity string.\<close>

definition impact :: "int \<Rightarrow> string \<Rightarrow> int" where
  "impact b s = py_int (fmul (of_int b) (dict_get SEVERITY_MULTIPLIER s (fl 1)))"

text \<open>A dictionary whose \<open>severity\<close> key, when absent, is set to \<open>d\<close>.\<close>

definition with_default_severity :: "string \<Rightarrow> item \<Rightarrow> item" where
  "with_default_severity d it = it\<lparr>severity := Some (item_get (severity it) d)\<rparr>"

definition known_severity :: "string \<Rightarrow> bool" where
  "known_severity s \<longleftrightarrow> s = ''critical'' \<or> s = ''high'' \<or> s = ''medium'' \<or> s = ''low''"

text \<open>
  The weight table as the specification gives it for the scorer of \<open>index.py\<close>:
  critical 10, high 7, medium 4, low 2, anything else 0.
\<close>

definition spec_severity_weight :: "string \<Rightarrow> int" where
  "spec_severity_weight s =
     (if s = ''critical'' then 10 else if s = ''high'' then 7
      else if s = ''medium'' then 4 else if s = ''low'' then 2 else 0)"

text \<open>A finding or power item that has the given keys only.\<close>

definition finding :: "string \<Rightarrow> string \<Rightarrow> item" where
  "finding c s =
     \<lparr>category = Some c, severity = Some s, matched_text = None, location = None,
      item_text = None\<rparr>"

definition finding_without_severity :: "string \<Rightarrow> item" where
  "finding_without_severity c =
     \<lparr>category = Some c, severity = None, matched_text = None, location = None,
      item_text = None\<rparr>"

definition power_item :: "string \<Rightarrow> item" where
  "power_item s =
     \<lparr>category = None, severity = Some s, matched_text = None, location = None,
      item_text = Some []\<rparr>"

text \<open>The result of \<open>analyze_power_balance_weighted\<close> without the two echoed samples.\<close>

definition without_samples :: "weighted_balance_result \<Rightarrow> weighted_balance_result" where
  "without_samples r = r\<lparr>employer_items_sample := [], employee_items_sample := []\<rparr>"

text \<open>
  The text \<open>U+C81C U+D55C U+C870\<close> followed by 500 full stops: it has both article
  markers, one occurrence of the keyword \<open>U+C81C U+D55C\<close> and 503 characters.
\<close>

definition marker_text :: ustr where
  "marker_text = [51228, 54620, 51312] @ replicate 500 46"

text \<open>The exact percentage, and whether it lies halfway between two integers.\<close>

definition exact_percentage :: "int \<Rightarrow> int \<Rightarrow> rat" where
  "exact_percentage employee employer = of_int employee / of_int (employee + employer) * 100"

definition halfway :: "rat \<Rightarrow> bool" where
  "halfway x \<longleftrightarrow> x - of_int \<lfloor>x\<rfloor> = 1 / 2"

section \<open>Values of the double-precision operations\<close>

lemma fl_vals:
  "fl (3 / 2) = 3 / 2" "fl (6 / 5) = 5404319552844595 / 4503599627370496"
  "fl (4 / 5) = 3602879701896397 / 4503599627370496" "fl (5 / 2) = 5 / 2"
  "fl (7 / 10) = 3152519739159347 / 4503599627370496"
  "fl 1 = 1" "fl 0 = 0" "fl 2 = 2" "fl 3 = 3" "fl (1 / 2) = 1 / 2"
  by code_simp+

text \<open>The doubles that \<open>0.1\<close> and \<open>1e16 + 1.0\<close> denote, as Python has them.\<close>

lemma fl_samples:
  "fl (1 / 10) = 3602879701896397 / 36028797018963968"
  "fadd 10000000000000000 1 = 10000000000000000"
  by code_simp+

lemma fl_weights:
  "fl 30 = 30" "fl 25 = 25" "fl 20 = 20" "fl 15 = 15" "fl 10 = 10"
  by code_simp+

section \<open>The risk aggregator\<close>

lemma impact_critical:
  "impact 30 ''critical'' = 45" "impact 25 ''critical'' = 37" "impact 20 ''critical'' = 30"
  "impact 15 ''critical'' = 22" "impact 10 ''critical'' = 15"
  by code_simp+

lemma impact_high:
  "impact 30 ''high'' = 36" "impact 25 ''high'' = 30" "impact 20 ''high'' = 24"
  "impact 15 ''high'' = 18" "impact 10 ''high'' = 12"
  by code_simp+

lemma impact_medium:
  "impact 30 ''medium'' = 30" "impact 25 ''medium'' = 25" "impact 20 ''medium'' = 20"
  "impact 15 ''medium'' = 15" "impact 10 ''medium'' = 10"
  by code_simp+

lemma impact_low:
  "impact 30 ''low'' = 21" "impact 25 ''low'' = 17" "impact 20 ''low'' = 14"
  "impact 15 ''low'' = 10" "impact 10 ''low'' = 7"
  by code_simp+

lemmas impact_table = impact_critical impact_high impact_medium impact_low

lemma impact_unknown:
  assumes "\<not> known_severity s"
  shows "impact b s = py_int (fl (of_int b))"
  using assms
  by (simp add: known_severity_def impact_def dict_get_def SEVERITY_MULTIPLIER_def fmul_def
      fl_vals)

lemma base_weight_cases: "dict_get RISK_WEIGHTS c 10 \<in> {30, 25, 20, 15, 10}"
  by (simp add: dict_get_def RISK_WEIGHTS_def)

lemma impact_of_eq:
  "impact_of f = impact (dict_get RISK_WEIGHTS (item_get (category f) '''') 10)
                        (item_get (severity f) ''medium'')"
  by (simp add: impact_of_def impact_def Let_def)

lemma impact_range:
  assumes "b \<in> {30, 25, 20, 15, 10}"
  shows "7 \<le> impact b s \<and> impact b s \<le> 45"
proof (cases "known_severity s")
  case True
  then show ?thesis
    using assms by (auto simp: known_severity_def impact_table)
next
  case False
  then have "impact b s = py_int (fl (of_int b))"
    by (rule impact_unknown)
  then show ?thesis
    using assms by (auto simp: fl_weights py_int_def)
qed

lemma impact_of_range: "7 \<le> impact_of f \<and> impact_of f \<le> 45"
  unfolding impact_of_eq by (rule impact_range [OF base_weight_cases])

lemma impact_mono:
  assumes "b \<in> {30, 25, 20, 15, 10}"
    and "severity_level s = Some l" and "severity_level s' = Some l'" and "l < l'"
  shows "impact b s \<le> impact b s'"
  using assms by (auto simp: severity_level_def impact_table split: if_splits)

lemma risk_loop_total:
  "fst (risk_loop fs (t, c, w)) = t + sum_list (map impact_of fs)"
  by (induction fs arbitrary: t c w) (simp_all add: Let_def)

lemma total_score_eq:
  "total_score (calculate_risk_score fs) =
     (if fs = [] then 0 else min (sum_list (map impact_of fs)) 100)"
proof (cases "fs = []")
  case True
  then show ?thesis by (simp add: calculate_risk_score_def)
next
  case False
  obtain t c w where r: "risk_loop fs (0, Map.empty, []) = (t, c, w)"
    by (cases "risk_loop fs (0, Map.empty, [])") auto
  have "t = sum_list (map impact_of fs)"
    using risk_loop_total [of fs 0 Map.empty "[]"] r by simp
  then show ?thesis
    using False r by (simp add: calculate_risk_score_def Let_def)
qed

lemma grade_eq:
  "grade (calculate_risk_score fs) = calculate_grade (total_score (calculate_risk_score fs))"
proof (cases "fs = []")
  case True
  then show ?thesis by (simp add: calculate_risk_score_def calculate_grade_def)
next
  case False
  then show ?thesis
    by (simp add: calculate_risk_score_def Let_def split: prod.splits)
qed

lemma sum_impact_pos:
  assumes "fs \<noteq> []"
  shows "7 \<le> sum_list (map impact_of fs)"
  using assms
proof (induction fs)
  case Nil
  then show ?case by simp
next
  case (Cons f fs)
  have a: "7 \<le> impact_of f" using impact_of_range [of f] by simp
  show ?case
  proof (cases "fs = []")
    case True
    then show ?thesis using a by simp
  next
    case False
    then have "7 \<le> sum_list (map impact_of fs)" by (rule Cons.IH)
    then show ?thesis using a by simp
  qed
qed

lemma grade_distinct:
  "grade_A \<noteq> grade_B" "grade_A \<noteq> grade_C" "grade_A \<noteq> grade_D" "grade_A \<noteq> grade_F"
  "grade_B \<noteq> grade_C" "grade_B \<noteq> grade_D" "grade_B \<noteq> grade_F"
  "grade_C \<noteq> grade_D" "grade_C \<noteq> grade_F" "grade_D \<noteq> grade_F"
  by (simp_all add: grade_A_def grade_B_def grade_C_def grade_D_def grade_F_def)

lemma grade_rank_calculate:
  "grade_rank (calculate_grade score) =
     (if score \<ge> 80 then 4 else if score \<ge> 60 then 3 else if score \<ge> 40 then 2
      else if score \<ge> 20 then 1 else 0)"
  using grade_distinct by (simp add: grade_rank_def calculate_grade_def)

lemma grade_rank_mono:
  assumes "a \<le> b"
  shows "grade_rank (calculate_grade a) \<le> grade_rank (calculate_grade b)"
  using assms by (simp add: grade_rank_calculate)

lemma sum_list_update_mono:
  fixes g :: "'a \<Rightarrow> int"
  assumes "i < length xs" and "g (xs ! i) \<le> g y"
  shows "sum_list (map g xs) \<le> sum_list (map g (xs[i := y]))"
  using assms
proof (induction xs arbitrary: i)
  case Nil
  then show ?case by simp
next
  case (Cons x xs)
  then show ?case by (cases i) auto
qed

lemma impact_of_raise:
  assumes "severity f = Some s"
    and "severity_level s = Some l" and "severity_level s' = Some l'" and "l < l'"
  shows "impact_of f \<le> impact_of (f\<lparr>severity := Some s'\<rparr>)"
  using assms impact_mono [OF base_weight_cases, of s l s' l']
  by (simp add: impact_of_eq item_get_def)

text \<open>
  C1. For the single finding of category \<open>unilateral_termination\<close> and severity
  \<open>critical\<close> the impact is 45 and the total score is 45; the grade the code assigns to
  45 is the label \<open>C\<close> (scores from 40 up to 59), not \<open>D\<close>.
\<close>

theorem single_critical_termination:
  "findings_with_impact (calculate_risk_score [finding ''unilateral_termination'' ''critical''])
     = [(finding ''unilateral_termination'' ''critical'', 45)]
   \<and> total_score (calculate_risk_score [finding ''unilateral_termination'' ''critical'']) = 45
   \<and> grade (calculate_risk_score [finding ''unilateral_termination'' ''critical'']) = grade_C"
proof -
  have i: "impact_of (finding ''unilateral_termination'' ''critical'') = 45"
    by (simp add: impact_of_eq finding_def item_get_def dict_get_def RISK_WEIGHTS_def
        impact_table)
  show ?thesis
    by (simp add: calculate_risk_score_def Let_def i calculate_grade_def)
qed

text \<open>C1 as stated, with the grade \<open>D\<close>, fails.\<close>

theorem critical_termination_grade_not_D:
  "grade (calculate_risk_score [finding ''unilateral_termination'' ''critical'']) \<noteq> grade_D"
proof -
  have i: "impact_of (finding ''unilateral_termination'' ''critical'') = 45"
    by (simp add: impact_of_eq finding_def item_get_def dict_get_def RISK_WEIGHTS_def
        impact_table)
  show ?thesis
    using grade_distinct by (simp add: calculate_risk_score_def Let_def i calculate_grade_def)
qed

text \<open>
  C5. The total score of the risk aggregator lies between 0 and 100, and it is 0 exactly
  for the empty list of findings.
\<close>

theorem total_score_bounds:
  "0 \<le> total_score (calculate_risk_score findings)
   \<and> total_score (calculate_risk_score findings) \<le> 100
   \<and> (total_score (calculate_risk_score findings) = 0 \<longleftrightarrow> findings = [])"
proof (cases "findings = []")
  case True
  then show ?thesis by (simp add: total_score_eq)
next
  case False
  then have "7 \<le> sum_list (map impact_of findings)" by (rule sum_impact_pos)
  then show ?thesis using False by (simp add: total_score_eq)
qed

theorem total_score_bounds_witness:
  "0 \<le> total_score (calculate_risk_score [finding ''payment_delay'' ''low''])
   \<and> total_score (calculate_risk_score [finding ''payment_delay'' ''low'']) \<le> 100
   \<and> total_score (calculate_risk_score [finding ''payment_delay'' ''low'']) \<noteq> 0
   \<and> total_score (calculate_risk_score []) = 0"
  using total_score_bounds [of "[finding ''payment_delay'' ''low'']"]
    total_score_bounds [of "[]"]
  by simp

text \<open>
  C8. Replacing the severity of one finding by a strictly higher one (in the order
  \<open>low < medium < high < critical\<close>) does not decrease the total score, and the grade stays
  or moves toward \<open>F\<close>; the grade is monotone in the score.
\<close>

theorem raising_severity_monotone:
  assumes "i < length findings"
    and "severity (findings ! i) = Some s"
    and "severity_level s = Some l" and "severity_level s' = Some l'" and "l < l'"
  shows "total_score (calculate_risk_score findings)
           \<le> total_score (calculate_risk_score
                            (findings[i := (findings ! i)\<lparr>severity := Some s'\<rparr>]))
         \<and> grade_rank (grade (calculate_risk_score findings))
           \<le> grade_rank (grade (calculate_risk_score
                            (findings[i := (findings ! i)\<lparr>severity := Some s'\<rparr>])))
         \<and> (\<forall>a b. a \<le> b \<longrightarrow>
               grade_rank (calculate_grade a) \<le> grade_rank (calculate_grade b))"
proof -
  let ?fs' = "findings[i := (findings ! i)\<lparr>severity := Some s'\<rparr>]"
  have ne: "findings \<noteq> []" "?fs' \<noteq> []"
    using assms(1) by auto
  have "impact_of (findings ! i) \<le> impact_of ((findings ! i)\<lparr>severity := Some s'\<rparr>)"
    using assms(2-5) by (rule impact_of_raise)
  then have "sum_list (map impact_of findings) \<le> sum_list (map impact_of ?fs')"
    using assms(1) by (rule sum_list_update_mono [rotated])
  then have t: "total_score (calculate_risk_score findings)
                  \<le> total_score (calculate_risk_score ?fs')"
    using ne by (simp add: total_score_eq)
  then have "grade_rank (grade (calculate_risk_score findings))
               \<le> grade_rank (grade (calculate_risk_score ?fs'))"
    unfolding grade_eq by (rule grade_rank_mono)
  then show ?thesis
    using t grade_rank_mono by blast
qed

theorem raising_severity_monotone_witness:
  "total_score (calculate_risk_score [finding ''excessive_damages'' ''low''])
     \<le> total_score (calculate_risk_score [finding ''excessive_damages'' ''critical''])
   \<and> grade_rank (grade (calculate_risk_score [finding ''excessive_damages'' ''low'']))
     \<le> grade_rank (grade (calculate_risk_score [finding ''excessive_damages'' ''critical'']))"
  using raising_severity_monotone
    [of 0 "[finding ''excessive_damages'' ''low'']" "''low''" 0 "''critical''" 3]
  by (simp add: severity_level_def finding_def)

section \<open>The scorers of index.py\<close>

lemma risk_weight_eq: "dict_get risk_severity_weights s 0 = spec_severity_weight s"
  by (simp add: dict_get_def risk_severity_weights_def spec_severity_weight_def)

lemma severity_counts_init_dom:
  "dom severity_counts_init = {''critical'', ''high'', ''medium'', ''low''}"
  by (auto simp: severity_counts_init_def split: if_splits)

lemma known_severity_dom:
  "known_severity s \<longleftrightarrow> s \<in> {''critical'', ''high'', ''medium'', ''low''}"
  by (auto simp: known_severity_def)

lemma contract_risk_loop_known:
  assumes "\<forall>f \<in> set fs. known_severity (item_get (severity f) ''low'')"
    and "dom sc = {''critical'', ''high'', ''medium'', ''low''}"
  shows "\<exists>cc' sc'. contract_risk_loop fs (t, cc, sc)
           = Inr (t + sum_list (map (\<lambda>f. spec_severity_weight (item_get (severity f) ''low'')) fs),
                  cc', sc')"
  using assms
proof (induction fs arbitrary: t cc sc)
  case Nil
  then show ?case by simp
next
  case (Cons f fs)
  let ?s = "item_get (severity f) ''low''"
  have "?s \<in> dom sc"
    using Cons.prems by (simp add: known_severity_dom)
  then obtain n where n: "sc ?s = Some n" by auto
  have d: "dom (sc(?s \<mapsto> n + 1)) = {''critical'', ''high'', ''medium'', ''low''}"
    using Cons.prems(2) \<open>?s \<in> dom sc\<close> by auto
  have k: "\<forall>f \<in> set fs. known_severity (item_get (severity f) ''low'')"
    using Cons.prems(1) by simp
  let ?t' = "t + spec_severity_weight ?s"
  let ?cc' = "cc(item_get (category f) [] \<mapsto> dict_get cc (item_get (category f) []) 0 + 1)"
  from Cons.IH [OF k d, of ?t' ?cc'] obtain cc' sc' where
    step: "contract_risk_loop fs (?t', ?cc', sc(?s \<mapsto> n + 1))
             = Inr (?t' + sum_list (map (\<lambda>f. spec_severity_weight (item_get (severity f) ''low'')) fs),
                    cc', sc')"
    by blast
  have "contract_risk_loop (f # fs) (t, cc, sc)
          = contract_risk_loop fs (?t', ?cc', sc(?s \<mapsto> n + 1))"
    using n by (simp add: Let_def risk_weight_eq)
  with step show ?case by (simp add: add.assoc)
qed

lemma severity_of_finding [simp]:
  "severity (finding c s) = Some s" "category (finding c s) = Some c"
  "severity (power_item s) = Some s" "category (power_item s) = None"
  "severity (finding_without_severity c) = None"
  "category (finding_without_severity c) = Some c"
  by (simp_all add: finding_def power_item_def finding_without_severity_def)

lemma item_get_simps [simp]: "item_get None d = d" "item_get (Some v) d = v"
  by (simp_all add: item_get_def)

lemma severity_counts_init_urgent: "severity_counts_init ''urgent'' = None"
  by (simp add: severity_counts_init_def)

text \<open>
  C4. A severity string that is not one of the four known ones is not accepted by every
  scoring entry point: \<open>analyze_contract_risk\<close> and \<open>analyze_power_balance_weighted\<close> of
  \<open>index.py\<close> raise \<open>KeyError\<close> for the severity \<open>urgent\<close>, where \<open>calculate_risk_score\<close>
  returns a score for the same finding.
\<close>

theorem unknown_severity_raises:
  "analyze_contract_risk [finding ''payment_delay'' ''urgent''] = Inl (KeyError ''urgent'')
   \<and> analyze_power_balance_weighted [power_item ''urgent''] [] = Inl (KeyError ''urgent'')
   \<and> analyze_power_balance_weighted [] [power_item ''urgent''] = Inl (KeyError ''urgent'')
   \<and> total_score (calculate_risk_score [finding ''payment_delay'' ''urgent'']) = 10"
proof -
  have a: "analyze_contract_risk [finding ''payment_delay'' ''urgent''] = Inl (KeyError ''urgent'')"
    by (simp add: analyze_contract_risk_def Let_def severity_counts_init_urgent)
  have b: "analyze_power_balance_weighted [power_item ''urgent''] [] = Inl (KeyError ''urgent'')"
    by (simp add: analyze_power_balance_weighted_def Let_def severity_counts_init_urgent
        split: prod.splits)
  have c: "analyze_power_balance_weighted [] [power_item ''urgent''] = Inl (KeyError ''urgent'')"
    by (simp add: analyze_power_balance_weighted_def Let_def severity_counts_init_urgent
        split: prod.splits)
  have "\<not> known_severity ''urgent''"
    by (simp add: known_severity_def)
  then have "impact 10 ''urgent'' = 10"
    by (simp add: impact_unknown fl_weights py_int_def)
  then have d: "total_score (calculate_risk_score [finding ''payment_delay'' ''urgent'']) = 10"
    by (simp add: total_score_eq impact_of_eq dict_get_def RISK_WEIGHTS_def)
  from a b c d show ?thesis by blast
qed

text \<open>
  On a list whose severities are all among the four known ones (an absent severity counts
  as \<open>low\<close>) \<open>analyze_contract_risk\<close> returns, and its total score is the plain sum of
  the weights critical 10, high 7, medium 4, low 2, with no upper cap: eleven critical
  findings score 110.
\<close>

lemma contract_risk_plain_sum:
  assumes "\<forall>f \<in> set findings. known_severity (item_get (severity f) ''low'')"
  shows "(\<exists>r. analyze_contract_risk findings = Inr r
            \<and> ix_total_score r
                = sum_list (map (\<lambda>f. spec_severity_weight (item_get (severity f) ''low''))
                             findings))
         \<and> (\<exists>r. analyze_contract_risk (replicate 11 (finding ''payment_delay'' ''critical''))
                  = Inr r \<and> ix_total_score r = 110)"
proof -
  have gen: "\<exists>r. analyze_contract_risk fs = Inr r
            \<and> ix_total_score r
                = sum_list (map (\<lambda>f. spec_severity_weight (item_get (severity f) ''low'')) fs)"
    if "\<forall>f \<in> set fs. known_severity (item_get (severity f) ''low'')" for fs
  proof -
    from contract_risk_loop_known [OF that severity_counts_init_dom, of 0 Map.empty]
    obtain cc' sc' where
      "contract_risk_loop fs (0, Map.empty, severity_counts_init)
         = Inr (sum_list (map (\<lambda>f. spec_severity_weight (item_get (severity f) ''low'')) fs),
                cc', sc')"
      by auto
    then show ?thesis
      by (simp add: analyze_contract_risk_def Let_def split: prod.splits)
  qed
  have "\<exists>r. analyze_contract_risk (replicate 11 (finding ''payment_delay'' ''critical'')) = Inr r
          \<and> ix_total_score r
              = sum_list (map (\<lambda>f. spec_severity_weight (item_get (severity f) ''low''))
                            (replicate 11 (finding ''payment_delay'' ''critical'')))"
    by (rule gen) (simp add: known_severity_def)
  then have "\<exists>r. analyze_contract_risk (replicate 11 (finding ''payment_delay'' ''critical''))
                  = Inr r \<and> ix_total_score r = 110"
    by (simp add: spec_severity_weight_def sum_list_replicate)
  with gen [OF assms] show ?thesis by blast
qed

lemma contract_risk_plain_sum_example:
  "\<exists>r. analyze_contract_risk [finding ''unclear_scope'' ''high'', finding_without_severity ''x'']
         = Inr r \<and> ix_total_score r = 9"
proof -
  have "\<forall>f \<in> set [finding ''unclear_scope'' ''high'', finding_without_severity ''x''].
          known_severity (item_get (severity f) ''low'')"
    by (simp add: known_severity_def)
  from contract_risk_plain_sum [OF this] show ?thesis
    by (simp add: spec_severity_weight_def)
qed

text \<open>
  C10. The total score of \<open>analyze_contract_risk\<close> is claimed to be the plain sum of the
  weights for every list of findings, an unknown severity weighing 0. For one critical
  finding followed by one of the unknown severity \<open>blocker\<close> that sum is 10; the code
  takes the weight 0 for the second finding and then raises \<open>KeyError\<close> at the counter of
  the same loop, so that no score is returned.
\<close>

theorem contract_risk_unknown_severity:
  "analyze_contract_risk
     [finding ''unclear_scope'' ''critical'', finding ''unclear_scope'' ''blocker'']
     = Inl (KeyError ''blocker'')
   \<and> sum_list (map (\<lambda>f. spec_severity_weight (item_get (severity f) ''low''))
         [finding ''unclear_scope'' ''critical'', finding ''unclear_scope'' ''blocker''])
     = 10
   \<and> dict_get risk_severity_weights ''blocker'' 0 = 0"
  by (simp add: analyze_contract_risk_def Let_def severity_counts_init_def
      spec_severity_weight_def dict_get_def risk_severity_weights_def)

section \<open>Default severities\<close>

lemma severity_with_default [simp]:
  "item_get (severity (with_default_severity d it)) d = item_get (severity it) d"
  "category (with_default_severity d it) = category it"
  by (simp_all add: with_default_severity_def)

lemma contract_risk_loop_default:
  "contract_risk_loop (map (with_default_severity ''low'') fs) st = contract_risk_loop fs st"
proof (induction fs arbitrary: st)
  case Nil
  then show ?case by simp
next
  case (Cons f fs)
  then show ?case
    by (cases st) (simp add: Let_def split: option.splits)
qed

lemma impact_of_default: "impact_of (with_default_severity ''medium'' f) = impact_of f"
  by (simp add: impact_of_eq)

lemma risk_loop_categories:
  "fst (snd (risk_loop (map (with_default_severity ''medium'') fs) (t, c, w)))
     = fst (snd (risk_loop fs (t, c, w')))"
  by (induction fs arbitrary: t c w w') (simp_all add: Let_def impact_of_default)

lemma weighted_sum_default:
  "weighted_sum (map (with_default_severity ''medium'') its) = weighted_sum its"
  by (simp add: weighted_sum_def foldl_map)

lemma breakdown_loop_default:
  "breakdown_loop (map (with_default_severity ''medium'') its) c = breakdown_loop its c"
  by (induction its arbitrary: c) (simp_all add: Let_def)

lemma ix_weighted_sum_default:
  "ix_weighted_sum (map (with_default_severity ''medium'') its) = ix_weighted_sum its"
  by (simp add: ix_weighted_sum_def comp_def)

lemma severity_count_loop_default:
  "severity_count_loop (map (with_default_severity ''medium'') its) c
     = severity_count_loop its c"
  by (induction its arbitrary: c) (simp_all add: Let_def split: option.splits)

text \<open>
  C9. The claim as stated gives the risk-scoring path the default severity \<open>low\<close>. In
  \<open>calculate_risk_score\<close> a finding without severity scores as \<open>medium\<close>: 30 for
  \<open>unilateral_termination\<close>, where severity \<open>low\<close> scores 21.
\<close>

theorem risk_default_not_low:
  "total_score (calculate_risk_score [finding_without_severity ''unilateral_termination'']) = 30
   \<and> total_score (calculate_risk_score [finding ''unilateral_termination'' ''low'']) = 21"
  by (simp add: total_score_eq impact_of_eq dict_get_def RISK_WEIGHTS_def impact_table)

text \<open>
  C9, amended. An absent severity is read as \<open>low\<close> by \<open>analyze_contract_risk\<close> of
  \<open>index.py\<close>, and as \<open>medium\<close> by \<open>calculate_risk_score\<close> and by the two weighted
  power-balance functions: writing the default into the items changes no result (apart
  from the items that the results echo).
\<close>

theorem default_severities:
  "analyze_contract_risk (map (with_default_severity ''low'') findings)
     = analyze_contract_risk findings
   \<and> total_score (calculate_risk_score (map (with_default_severity ''medium'') findings))
     = total_score (calculate_risk_score findings)
   \<and> grade (calculate_risk_score (map (with_default_severity ''medium'') findings))
     = grade (calculate_risk_score findings)
   \<and> category_scores (calculate_risk_score (map (with_default_severity ''medium'') findings))
     = category_scores (calculate_risk_score findings)
   \<and> calculate_power_balance_weighted (map (with_default_severity ''medium'') employer_items)
       (map (with_default_severity ''medium'') employee_items)
     = calculate_power_balance_weighted employer_items employee_items
   \<and> map_sum id without_samples
       (analyze_power_balance_weighted (map (with_default_severity ''medium'') employee_items)
          (map (with_default_severity ''medium'') employer_items))
     = map_sum id without_samples (analyze_power_balance_weighted employee_items employer_items)"
proof -
  have a: "analyze_contract_risk (map (with_default_severity ''low'') findings)
          = analyze_contract_risk findings"
    by (simp add: analyze_contract_risk_def contract_risk_loop_default
        split: sum.splits prod.splits)
  have t: "total_score (calculate_risk_score (map (with_default_severity ''medium'') findings))
          = total_score (calculate_risk_score findings)"
    by (simp add: total_score_eq comp_def impact_of_default)
  have g: "grade (calculate_risk_score (map (with_default_severity ''medium'') findings))
          = grade (calculate_risk_score findings)"
    by (simp only: grade_eq t)
  have c: "category_scores (calculate_risk_score (map (with_default_severity ''medium'') findings))
          = category_scores (calculate_risk_score findings)"
    using risk_loop_categories [of findings 0 Map.empty "[]" "[]"]
    by (auto simp: calculate_risk_score_def Let_def split: prod.splits)
  have p: "calculate_power_balance_weighted (map (with_default_severity ''medium'') employer_items)
          (map (with_default_severity ''medium'') employee_items)
        = calculate_power_balance_weighted employer_items employee_items"
    by (simp add: calculate_power_balance_weighted_def weighted_sum_default
        analyze_severity_breakdown_def breakdown_loop_default)
  have w: "map_sum id without_samples
          (analyze_power_balance_weighted (map (with_default_severity ''medium'') employee_items)
             (map (with_default_severity ''medium'') employer_items))
        = map_sum id without_samples
            (analyze_power_balance_weighted employee_items employer_items)"
    by (simp add: analyze_power_balance_weighted_def ix_weighted_sum_default
        severity_count_loop_default Let_def without_samples_def
        split: prod.splits sum.splits)
  show ?thesis
    by (intro conjI a t g c p w)
qed

section \<open>Counting keywords\<close>

lemma count_from_no_first:
  assumes "sub \<noteq> []" and "hd sub \<notin> set s"
  shows "count_from sub s = 0"
  using assms
proof (induction s)
  case Nil
  then show ?case by simp
next
  case (Cons c cs)
  have "take (length sub) (c # cs) \<noteq> sub"
  proof
    assume "take (length sub) (c # cs) = sub"
    then have "hd sub = c"
      using Cons.prems(1) by (cases sub) auto
    then show False using Cons.prems(2) by simp
  qed
  then show ?case using Cons by simp
qed

lemma str_count_no_first:
  assumes "sub \<noteq> []" and "hd sub \<notin> set s"
  shows "str_count s sub = 0"
  using assms by (simp add: str_count_def count_from_no_first)

lemma str_split_no_sep:
  assumes "sep \<notin> set s"
  shows "str_split sep s = [s]"
  using assms by (induction s) (simp_all add: Let_def)

lemma str_strip_empty_iff: "str_strip s = [] \<longleftrightarrow> (\<forall>c \<in> set s. is_space c)"
proof
  assume "str_strip s = []"
  then have a: "\<forall>c \<in> set (dropWhile is_space s). is_space c"
    by (simp add: str_strip_def)
  have "dropWhile is_space s = []"
  proof (rule ccontr)
    assume ne: "dropWhile is_space s \<noteq> []"
    then have "\<not> is_space (hd (dropWhile is_space s))"
      by (rule hd_dropWhile)
    moreover have "hd (dropWhile is_space s) \<in> set (dropWhile is_space s)"
      using ne by simp
    ultimately show False using a by blast
  qed
  then show "\<forall>c \<in> set s. is_space c"
    by simp
next
  assume "\<forall>c \<in> set s. is_space c"
  then have "dropWhile is_space s = []"
    by simp
  then show "str_strip s = []"
    by (simp only: str_strip_def rev.simps dropWhile.simps)
qed

lemma keyword_count_empty:
  "keyword_count [] employer_keywords = 0" "keyword_count [] employee_keywords = 0"
  by (simp_all add: keyword_count_def str_count_def employer_keywords_def
      employee_keywords_def)

section \<open>Empty and absent text\<close>

lemma percentage_score_zero: "percentage_score p 0 = 50"
  by (simp add: percentage_score_def)

lemma balance_level_of_50: "balance_level_of 50 = (balanced, ''green'')"
  by (simp add: balance_level_of_def)

text \<open>
  C2. The claim as stated lets every text-driven analysis return a neutral result for
  the empty text; \<open>analyze_power_balance\<close> of \<open>power_analyzer.py\<close> returns the error
  dictionary.
\<close>

theorem empty_text_error_record:
  "analyze_power_balance (Some []) = Inr (Error_record no_content_message)"
  by simp

text \<open>
  C2, amended. For the empty text \<open>analyze_power_balance\<close> of \<open>index.py\<close> returns the
  neutral result: both counts 0, score 50, level balanced. \<open>analyze_power_balance\<close> of
  \<open>power_analyzer.py\<close> returns the error dictionary for the absent and for the empty text,
  and \<open>analyze_power_balance_chunked\<close> with its default chunk size passes the empty text
  on to it.
\<close>

theorem empty_text_results:
  "index_analyze_power_balance []
     = \<lparr>balance_score = 50, balance_level = balanced, balance_color = ''green'',
        ix_employer_rights_count = 0, ix_employee_obligations_count = 0\<rparr>
   \<and> analyze_power_balance None = Inr (Error_record no_content_message)
   \<and> analyze_power_balance (Some []) = Inr (Error_record no_content_message)
   \<and> analyze_power_balance_chunked (Some []) 500 = Inr (Error_record no_content_message)"
  by (simp add: index_analyze_power_balance_def keyword_count_empty percentage_score_zero
      balance_level_of_50)

section \<open>The weighted balance of power_analyzer.py\<close>

lemma fdiv_self:
  assumes "x \<noteq> 0"
  shows "fdiv x x = 1"
  using assms by (simp add: fdiv_def fl_vals)

lemma determine_power_level_one: "determine_power_level 1 = (level_balanced, 90)"
  by (simp add: determine_power_level_def fl_vals)

lemma determine_power_level_zero: "determine_power_level 0 = (level_employee, 95)"
  by (simp add: determine_power_level_def fl_vals)

lemma py_round_nd_int: "py_round_nd (of_int n) k = of_int n"
  by (simp add: py_round_nd_def)

text \<open>
  C7. The claim as stated covers the two empty lists: their weighted sums are equal
  (both 0), the ratio is 0, and the level is the employee-favoured one with fairness 95.
\<close>

theorem equal_sums_empty_lists:
  "balance_ratio (calculate_power_balance_weighted [] []) = 0
   \<and> power_level (calculate_power_balance_weighted [] []) = level_employee
   \<and> fairness_score (calculate_power_balance_weighted [] []) = 95"
  using py_round_nd_int [of 0 2]
  by (simp add: calculate_power_balance_weighted_def weighted_sum_def balance_of_def
      determine_power_level_zero)

lemma equal_nonzero_sums_balanced:
  assumes "weighted_sum employer_items = weighted_sum employee_items"
    and "weighted_sum employer_items \<noteq> 0"
  shows "balance_ratio (calculate_power_balance_weighted employer_items employee_items) = 1
   \<and> power_level (calculate_power_balance_weighted employer_items employee_items)
       = level_balanced
   \<and> fairness_score (calculate_power_balance_weighted employer_items employee_items) = 90"
proof -
  have "balance_of (weighted_sum employer_items) (weighted_sum employee_items) = 1"
    using assms by (simp add: balance_of_def fdiv_self)
  then show ?thesis
    using py_round_nd_int [of 1 2]
    by (simp add: calculate_power_balance_weighted_def Let_def determine_power_level_one)
qed

lemma weighted_sum_single_high: "weighted_sum [power_item ''high''] = 2"
  by (simp add: weighted_sum_def fadd_def dict_get_def pa_severity_weights_def fl_vals)

lemma weighted_sum_two_medium: "weighted_sum [power_item ''medium'', power_item ''medium''] = 2"
  by (simp add: weighted_sum_def fadd_def dict_get_def pa_severity_weights_def fl_vals)

section \<open>Splitting at the article marker\<close>

lemma marker_text_length: "length marker_text = 503"
  by (simp add: marker_text_def)

lemma marker_text_set: "set marker_text = {51228, 54620, 51312, 46}"
  by (auto simp: marker_text_def)

lemma marker_text_employer: "keyword_count marker_text EMPLOYER_RIGHTS_KEYWORDS = 0"
  by (simp add: keyword_count_def EMPLOYER_RIGHTS_KEYWORDS_def str_count_no_first
      marker_text_set)

lemma marker_text_limit: "count_from [51228, 54620] marker_text = 1"
proof -
  have "count_from [51228, 54620] (51312 # replicate 500 46) = 0"
    by (rule count_from_no_first) auto
  then show ?thesis
    by (simp add: marker_text_def)
qed

lemma marker_text_employee: "keyword_count marker_text EMPLOYEE_OBLIGATIONS_KEYWORDS = 1"
proof -
  have "str_count marker_text [51228, 54620] = 1"
    by (simp add: str_count_def marker_text_limit)
  then show ?thesis
    by (simp add: keyword_count_def EMPLOYEE_OBLIGATIONS_KEYWORDS_def str_count_no_first
        marker_text_set)
qed

lemma marker_text_chunks:
  "chunks_of marker_text 500 = Inr [[], 54620 # 51312 # replicate 500 46]"
proof -
  have "str_split 51228 (54620 # 51312 # replicate 500 46) = [54620 # 51312 # replicate 500 46]"
    by (rule str_split_no_sep) auto
  then have "str_split 51228 marker_text = [[], 54620 # 51312 # replicate 500 46]"
    by (simp add: marker_text_def Let_def)
  then show ?thesis
    by (simp add: chunks_of_def marker_text_set article_je_def article_jo_def)
qed

lemma marker_chunk_counts:
  "keyword_count (54620 # 51312 # replicate 500 46) EMPLOYER_RIGHTS_KEYWORDS = 0"
  "keyword_count (54620 # 51312 # replicate 500 46) EMPLOYEE_OBLIGATIONS_KEYWORDS = 0"
  by (simp_all add: keyword_count_def EMPLOYER_RIGHTS_KEYWORDS_def
      EMPLOYEE_OBLIGATIONS_KEYWORDS_def str_count_no_first)

lemma marker_text_chunk_loop:
  "chunk_loop [[], 54620 # 51312 # replicate 500 46] (0, 0) = (0, 0)"
proof -
  have "\<not> is_space 54620"
    by (simp add: is_space_def)
  then have s1: "str_strip (54620 # 51312 # replicate 500 46) \<noteq> []"
    by (auto simp: str_strip_empty_iff)
  have s2: "str_strip [] = []"
    by (simp add: str_strip_def)
  show ?thesis
    by (simp add: s1 s2 marker_chunk_counts)
qed

text \<open>
  C3. A text of 503 characters that has both article markers and one occurrence of the
  keyword \<open>U+C81C U+D55C\<close>: the pass over the full text counts one employee obligation,
  the chunked analysis, which splits at \<open>U+C81C\<close> and drops it, counts none.
\<close>

theorem article_split_loses_keyword:
  "keyword_count marker_text EMPLOYEE_OBLIGATIONS_KEYWORDS = 1
   \<and> analyze_power_balance (Some marker_text) = Inr (Analysis (result_of_counts 0 1 None))
   \<and> analyze_power_balance_chunked (Some marker_text) 500
       = Inr (Analysis (result_of_counts 0 0 (Some ''chunked'')))
   \<and> employee_obligations_count (result_of_counts 0 1 None) = 1
   \<and> employee_obligations_count (result_of_counts 0 0 (Some ''chunked'')) = 0"
proof -
  have ne: "marker_text \<noteq> []"
    by (simp add: marker_text_def)
  have a: "analyze_power_balance (Some marker_text) = Inr (Analysis (result_of_counts 0 1 None))"
    using ne by (simp add: marker_text_length marker_text_employer marker_text_employee)
  have b: "analyze_power_balance_chunked (Some marker_text) 500
             = Inr (Analysis (result_of_counts 0 0 (Some ''chunked'')))"
    by (simp add: marker_text_length marker_text_chunks marker_text_chunk_loop
        del: chunk_loop.simps)
  have c: "employee_obligations_count (result_of_counts 0 1 None) = 1"
    "employee_obligations_count (result_of_counts 0 0 (Some ''chunked'')) = 0"
    by (simp_all add: result_of_counts_def Let_def split: prod.splits)
  from a b c marker_text_employee show ?thesis by simp
qed

section \<open>Error bounds of the double-precision operations\<close>

lemma round_half_even_cases:
  obtains (down) "x - of_int \<lfloor>x\<rfloor> \<le> 1 / 2" "round_half_even x = \<lfloor>x\<rfloor>"
  | (up) "1 / 2 \<le> x - of_int \<lfloor>x\<rfloor>" "round_half_even x = \<lfloor>x\<rfloor> + 1"
  by (cases "x - of_int \<lfloor>x\<rfloor> < 1 / 2"; cases "1 / 2 < x - of_int \<lfloor>x\<rfloor>";
      cases "even \<lfloor>x\<rfloor>") (simp_all add: round_half_even_def Let_def)

lemma round_half_even_error: "\<bar>of_int (round_half_even y) - y\<bar> \<le> 1 / 2"
proof -
  define f where "f = \<lfloor>y\<rfloor>"
  have f: "of_int f \<le> y" "y < of_int f + 1"
    unfolding f_def by linarith+
  show ?thesis
  proof (cases y rule: round_half_even_cases)
    case down
    then have "y - of_int f \<le> 1 / 2" "of_int (round_half_even y) = (of_int f :: rat)"
      by (simp_all add: f_def)
    then show ?thesis using f by linarith
  next
    case up
    then have "1 / 2 \<le> y - of_int f" "of_int (round_half_even y) = (of_int f :: rat) + 1"
      by (simp_all add: f_def)
    then show ?thesis using f by linarith
  qed
qed

lemma round_half_even_nonneg:
  assumes "0 \<le> y"
  shows "0 \<le> round_half_even y"
proof -
  have "0 \<le> \<lfloor>y\<rfloor>" using assms by simp
  then show ?thesis
    by (auto simp: round_half_even_def Let_def)
qed

lemma binexp_le:
  assumes "0 < x"
  shows "2 powi binexp x \<le> x"
proof -
  obtain n d where q: "quotient_of x = (n, d)"
    by (cases "quotient_of x") auto
  have d: "0 < d" using q by (rule quotient_of_denom_pos)
  have x: "x = of_int n / of_int d" using q by (rule quotient_of_div)
  have n: "0 < n"
    using assms d x by (simp add: zero_less_divide_iff)
  let ?k = "bitlen n - bitlen d"
  show ?thesis
  proof (cases "2 powi ?k \<le> x")
    case True
    then show ?thesis by (simp add: binexp_def q Let_def)
  next
    case False
    then have b: "binexp x = ?k - 1" by (simp add: binexp_def q Let_def)
    have bn: "1 \<le> bitlen n" using n by (simp add: bitlen_alt_def)
    have "2 ^ nat (bitlen n - 1) \<le> n" using bitlen_bounds [OF n] by simp
    then have "(of_int (2 ^ nat (bitlen n - 1)) :: rat) \<le> of_int n"
      by (simp only: of_int_le_iff)
    then have lo: "(2 :: rat) powi (bitlen n - 1) \<le> of_int n"
      using bn by (simp add: power_int_nonneg_exp)
    have "d < 2 ^ nat (bitlen d)" using bitlen_bounds [OF d] by simp
    then have "(of_int d :: rat) < of_int (2 ^ nat (bitlen d))"
      by (simp only: of_int_less_iff)
    then have hi: "(of_int d :: rat) \<le> 2 powi bitlen d"
      using bitlen_nonneg [of d] by (simp add: power_int_nonneg_exp)
    have "(2 :: rat) powi (?k - 1) = 2 powi (bitlen n - 1) / 2 powi bitlen d"
      using power_int_diff [of "2 :: rat" "bitlen n - 1" "bitlen d"]
      by (simp add: algebra_simps)
    also have "\<dots> \<le> of_int n / of_int d"
      using lo hi d n by (intro frac_le) simp_all
    finally show ?thesis using b x by simp
  qed
qed

lemma binexp_less:
  assumes "0 < x" and "x < 2 powi m"
  shows "binexp x < m"
proof (rule ccontr)
  assume "\<not> binexp x < m"
  then have "m \<le> binexp x" by simp
  then have "(2 :: rat) powi m \<le> 2 powi binexp x"
    by (intro power_int_increasing) simp_all
  with binexp_le [OF assms(1)] assms(2) show False by simp
qed

lemma binexp_gt:
  assumes "0 < x"
  shows "x < 2 powi (binexp x + 1)"
proof -
  obtain n d where q: "quotient_of x = (n, d)"
    by (cases "quotient_of x") auto
  have d: "0 < d" using q by (rule quotient_of_denom_pos)
  have x: "x = of_int n / of_int d" using q by (rule quotient_of_div)
  have n: "0 < n"
    using assms d x by (simp add: zero_less_divide_iff)
  let ?k = "bitlen n - bitlen d"
  show ?thesis
  proof (cases "2 powi ?k \<le> x")
    case True
    then have b: "binexp x = ?k" by (simp add: binexp_def q Let_def)
    have bd: "1 \<le> bitlen d" using d by (simp add: bitlen_alt_def)
    have "n < 2 ^ nat (bitlen n)" using bitlen_bounds [OF n] by simp
    then have "(of_int n :: rat) < of_int (2 ^ nat (bitlen n))"
      by (simp only: of_int_less_iff)
    then have hi: "(of_int n :: rat) < 2 powi bitlen n"
      using bitlen_nonneg [of n] by (simp add: power_int_nonneg_exp)
    have "2 ^ nat (bitlen d - 1) \<le> d" using bitlen_bounds [OF d] by simp
    then have "(of_int (2 ^ nat (bitlen d - 1)) :: rat) \<le> of_int d"
      by (simp only: of_int_le_iff)
    then have lo: "(2 :: rat) powi (bitlen d - 1) \<le> of_int d"
      using bd by (simp add: power_int_nonneg_exp)
    have "of_int n / of_int d < (2 :: rat) powi bitlen n / 2 powi (bitlen d - 1)"
      using lo hi n by (intro frac_less) simp_all
    also have "\<dots> = 2 powi (?k + 1)"
      using power_int_diff [of "2 :: rat" "bitlen n" "bitlen d - 1"]
      by (simp add: algebra_simps)
    finally show ?thesis using b x by simp
  next
    case False
    then show ?thesis by (simp add: binexp_def q Let_def)
  qed
qed

lemma fl_pos_eq:
  assumes "0 < x"
  shows "fl x = of_int (round_half_even (x / 2 powi (binexp x - 52))) * 2 powi (binexp x - 52)"
  using assms by (simp add: fl_def Let_def)

lemma fl_nonneg:
  assumes "0 \<le> x"
  shows "0 \<le> fl x"
proof (cases "x = 0")
  case True
  then show ?thesis by (simp add: fl_def)
next
  case False
  then have x: "0 < x" using assms by simp
  have "0 \<le> x / 2 powi (binexp x - 52)"
    using x by simp
  then have "0 \<le> round_half_even (x / 2 powi (binexp x - 52))"
    by (rule round_half_even_nonneg)
  then show ?thesis
    by (simp add: fl_pos_eq [OF x])
qed

lemma fl_error:
  assumes "0 < x"
  shows "\<bar>fl x - x\<bar> \<le> 2 powi (binexp x - 53)"
proof -
  let ?u = "(2 :: rat) powi (binexp x - 52)"
  have u: "0 < ?u" by simp
  have "fl x - x = (of_int (round_half_even (x / ?u)) - x / ?u) * ?u"
    using u by (simp add: fl_pos_eq [OF assms] algebra_simps)
  then have "\<bar>fl x - x\<bar> = \<bar>of_int (round_half_even (x / ?u)) - x / ?u\<bar> * ?u"
    using u by (simp add: abs_mult)
  also have "\<dots> \<le> 1 / 2 * ?u"
    using round_half_even_error [of "x / ?u"] u by (intro mult_right_mono) simp_all
  also have "1 / 2 * ?u = 2 powi (binexp x - 53)"
    using power_int_diff [of "2 :: rat" "binexp x - 52" 1] by simp
  finally show ?thesis .
qed

lemma fl_error_below:
  assumes "0 \<le> x" and "x < 2 powi m"
  shows "\<bar>fl x - x\<bar> \<le> 2 powi (m - 54)"
proof (cases "x = 0")
  case True
  then show ?thesis by (simp add: fl_def)
next
  case False
  then have x: "0 < x" using assms(1) by simp
  have "binexp x - 53 \<le> m - 54"
    using binexp_less [OF x assms(2)] by simp
  then have "(2 :: rat) powi (binexp x - 53) \<le> 2 powi (m - 54)"
    by (intro power_int_increasing) simp_all
  with fl_error [OF x] show ?thesis by simp
qed

section \<open>The percentage score\<close>

lemma abs_diff_triangle: "\<bar>a - c\<bar> \<le> \<bar>a - b\<bar> + \<bar>b - c\<bar>" for a b c :: rat
  by linarith

lemma percentage_double_error:
  assumes "0 \<le> q" and "q \<le> 1"
  shows "\<bar>fmul (fl q) 100 - q * 100\<bar> \<le> 164 / 2 ^ 53"
proof -
  have "q < 2 powi 1" using assms(2) by simp
  then have "\<bar>fl q - q\<bar> \<le> 2 powi (1 - 54)"
    using assms(1) by (rule fl_error_below [rotated])
  then have e1: "\<bar>fl q - q\<bar> \<le> 1 / 2 ^ 53"
    by (simp add: power_int_minus_divide)
  have nn: "0 \<le> fl q * 100"
    using fl_nonneg [OF assms(1)] by simp
  have "fl q \<le> q + 1 / 2 ^ 53" using e1 by linarith
  then have "fl q * 100 < 128" using assms(2) by simp
  then have "fl q * 100 < 2 powi 7" by simp
  then have "\<bar>fl (fl q * 100) - fl q * 100\<bar> \<le> 2 powi (7 - 54)"
    using nn by (rule fl_error_below [rotated])
  then have e2: "\<bar>fl (fl q * 100) - fl q * 100\<bar> \<le> 64 / 2 ^ 53"
    by (simp add: power_int_minus_divide)
  have "\<bar>fl q * 100 - q * 100\<bar> = \<bar>fl q - q\<bar> * 100"
    using abs_mult [of "fl q - q" 100] by (simp add: algebra_simps)
  then have e3: "\<bar>fl q * 100 - q * 100\<bar> \<le> 100 / 2 ^ 53"
    using e1 by simp
  have "\<bar>fl (fl q * 100) - q * 100\<bar>
          \<le> \<bar>fl (fl q * 100) - fl q * 100\<bar> + \<bar>fl q * 100 - q * 100\<bar>"
    by (rule abs_diff_triangle)
  also have "\<dots> \<le> 64 / 2 ^ 53 + 100 / 2 ^ 53"
    using e2 e3 by (rule add_mono)
  finally show ?thesis by (simp add: fmul_def)
qed

lemma percentage_score_nearest:
  assumes "0 \<le> e" and "e \<le> t" and "0 < t" and "t \<le> 10 ^ 13"
  shows "\<bar>of_int (percentage_score e t) - of_int e / of_int t * (100 :: rat)\<bar> \<le> 1 / 2"
proof -
  let ?q = "of_int e / of_int t :: rat"
  let ?y = "fmul (fl ?q) 100"
  let ?s = "percentage_score e t"
  have s: "?s = round_half_even ?y"
    using assms(3) by (simp add: percentage_score_def py_round_def fdiv_def)
  have q: "0 \<le> ?q" "?q \<le> 1"
    using assms by simp_all
  have "\<bar>of_int ?s - ?q * 100\<bar> \<le> \<bar>of_int ?s - ?y\<bar> + \<bar>?y - ?q * 100\<bar>"
    by (rule abs_diff_triangle)
  also have "\<dots> \<le> 1 / 2 + 164 / 2 ^ 53"
    unfolding s using round_half_even_error [of ?y] percentage_double_error [OF q]
    by (intro add_mono) simp_all
  finally have b: "\<bar>of_int ?s - ?q * 100\<bar> \<le> 1 / 2 + 164 / 2 ^ 53" .
  have tp: "(0 :: rat) < of_int t" using assms(3) by simp
  have "of_int (?s * t - 100 * e) = (of_int ?s - ?q * 100) * (of_int t :: rat)"
    using tp by (simp add: algebra_simps)
  then have "\<bar>of_int (?s * t - 100 * e) :: rat\<bar> = \<bar>of_int ?s - ?q * 100\<bar> * of_int t"
    using tp by (simp add: abs_mult)
  also have "\<dots> \<le> (1 / 2 + 164 / 2 ^ 53) * of_int t"
    using b tp by (intro mult_right_mono) simp_all
  finally have "2 * \<bar>of_int (?s * t - 100 * e) :: rat\<bar> \<le> of_int t + 328 / 2 ^ 53 * of_int t"
    by (simp add: algebra_simps)
  moreover have "328 / 2 ^ 53 * (of_int t :: rat) < 1"
  proof -
    have "(of_int t :: rat) \<le> of_int (10 ^ 13)"
      using assms(4) by (simp only: of_int_le_iff)
    then show ?thesis by simp
  qed
  ultimately have "2 * \<bar>of_int (?s * t - 100 * e) :: rat\<bar> < of_int t + 1"
    by linarith
  then have "(of_int (2 * \<bar>?s * t - 100 * e\<bar>) :: rat) < of_int (t + 1)"
    by simp
  then have "2 * \<bar>?s * t - 100 * e\<bar> < t + 1"
    by (simp only: of_int_less_iff)
  then have "2 * \<bar>?s * t - 100 * e\<bar> \<le> t"
    by simp
  then have "(of_int (2 * \<bar>?s * t - 100 * e\<bar>) :: rat) \<le> of_int t"
    by (simp only: of_int_le_iff)
  then have "\<bar>of_int (?s * t - 100 * e) :: rat\<bar> \<le> of_int t / 2"
    by simp
  then have "\<bar>(of_int ?s - ?q * 100) * (of_int t :: rat)\<bar> \<le> 1 / 2 * of_int t"
    using tp by (simp add: algebra_simps)
  then have "\<bar>of_int ?s - ?q * 100\<bar> * (of_int t :: rat) \<le> 1 / 2 * of_int t"
    using tp by (simp add: abs_mult)
  then show ?thesis
    using tp by (simp only: mult_le_cancel_right_pos)
qed

lemma nearest_is_round_half_even:
  assumes "\<bar>of_int s - x\<bar> \<le> (1 / 2 :: rat)" and "\<not> halfway x"
  shows "s = round_half_even x"
proof -
  define f where "f = \<lfloor>x\<rfloor>"
  have f: "of_int f \<le> x" "x < of_int f + 1"
    unfolding f_def by linarith+
  have r: "x - of_int f \<noteq> 1 / 2"
    using assms(2) by (simp add: halfway_def f_def)
  show ?thesis
  proof (cases x rule: round_half_even_cases)
    case down
    then have "x - of_int f < 1 / 2"
      using r by (simp add: f_def)
    then have "of_int s < (of_int f :: rat) + 1" "(of_int f :: rat) - 1 < of_int s"
      using assms(1) f by linarith+
    then have "of_int s < (of_int (f + 1) :: rat)" "(of_int (f - 1) :: rat) < of_int s"
      by simp_all
    then have "s < f + 1" "f - 1 < s"
      by (simp_all only: of_int_less_iff)
    then show ?thesis
      using down(2) by (simp add: f_def)
  next
    case up
    then have "1 / 2 < x - of_int f"
      using r by (simp add: f_def)
    then have "of_int s < (of_int f :: rat) + 2" "(of_int f :: rat) < of_int s"
      using assms(1) f by linarith+
    then have "of_int s < (of_int (f + 2) :: rat)" "(of_int f :: rat) < of_int s"
      by simp_all
    then have "s < f + 2" "f < s"
      by (simp_all only: of_int_less_iff)
    then show ?thesis
      using up(2) by (simp add: f_def)
  qed
qed

lemma calculate_power_score_fields:
  "balance_score (calculate_power_score e r) = percentage_score e (e + r)"
  "balance_level (calculate_power_score e r) = fst (balance_level_of (percentage_score e (e + r)))"
  by (simp_all add: calculate_power_score_def Let_def split: prod.splits)

text \<open>
  C6. The claim as stated: the score is the rounded exact percentage. For 23 employee
  and 17 employer items the exact percentage is 57.5, which rounds to 58 (half to even, as
  also half up); the code computes \<open>23 / 40\<close> and the product with 100 in double precision,
  gets the double that prints as \<open>57.49999999999999\<close>, and returns 57.
\<close>

theorem power_score_tie_counterexample:
  "balance_score (calculate_power_score 23 17) = 57
   \<and> fdiv 23 40 = 2589569785738035 / 4503599627370496
   \<and> fmul (fdiv 23 40) 100 = 8092405580431359 / 140737488355328
   \<and> exact_percentage 23 17 = 115 / 2
   \<and> round_half_even (exact_percentage 23 17) = 58"
proof -
  have "percentage_score 23 40 = 57"
    by code_simp
  then have a: "balance_score (calculate_power_score 23 17) = 57"
    by (simp add: calculate_power_score_fields)
  have d: "fdiv 23 40 = 2589569785738035 / 4503599627370496"
    by code_simp
  have m: "fmul (fdiv 23 40) 100 = 8092405580431359 / 140737488355328"
    by code_simp
  have b: "exact_percentage 23 17 = 115 / 2"
    by (simp add: exact_percentage_def)
  have "round_half_even (115 / 2) = 58"
    by code_simp
  then have c: "round_half_even (exact_percentage 23 17) = 58"
    by (simp only: b)
  show ?thesis
    by (intro conjI a d m b c)
qed

text \<open>
  C6, amended. For non-negative counts with a total of at most \<open>10 ^ 13\<close> the score is
  50 when the total is 0; otherwise it is an integer nearest to the exact percentage
  \<open>employee / (employee + employer) * 100\<close>, and it is the rounded exact percentage whenever
  that is not halfway between two integers. The level follows the thresholds 70, 60, 40
  and 30, and the counts \<open>(0, 0)\<close> give the score 50 and the level balanced.
\<close>

theorem power_score_nearest:
  assumes "0 \<le> employee" and "0 \<le> employer" and "employee + employer \<le> 10 ^ 13"
  shows "(employee + employer = 0 \<longrightarrow>
            balance_score (calculate_power_score employee employer) = 50)
   \<and> (0 < employee + employer \<longrightarrow>
        \<bar>of_int (balance_score (calculate_power_score employee employer))
           - exact_percentage employee employer\<bar> \<le> 1 / 2)
   \<and> (0 < employee + employer \<and> \<not> halfway (exact_percentage employee employer) \<longrightarrow>
        balance_score (calculate_power_score employee employer)
          = round_half_even (exact_percentage employee employer))
   \<and> balance_level (calculate_power_score employee employer)
       = (let score = balance_score (calculate_power_score employee employer)
          in if score \<ge> 70 then very_unfavorable_to_employee
             else if score \<ge> 60 then unfavorable_to_employee
             else if score \<ge> 40 then balanced
             else if score \<ge> 30 then unfavorable_to_employer
             else very_unfavorable_to_employer)
   \<and> balance_score (calculate_power_score 0 0) = 50
   \<and> balance_level (calculate_power_score 0 0) = balanced"
proof -
  let ?res = "calculate_power_score employee employer"
  have a: "employee + employer = 0 \<longrightarrow> balance_score ?res = 50"
    by (simp add: calculate_power_score_fields percentage_score_def)
  have b: "\<bar>of_int (balance_score ?res) - exact_percentage employee employer\<bar> \<le> 1 / 2"
    if "0 < employee + employer"
    using percentage_score_nearest [of employee "employee + employer"] assms that
    by (simp add: calculate_power_score_fields exact_percentage_def)
  have c: "balance_score ?res = round_half_even (exact_percentage employee employer)"
    if "0 < employee + employer" "\<not> halfway (exact_percentage employee employer)"
    using b [OF that(1)] that(2) by (rule nearest_is_round_half_even)
  have d: "balance_level ?res
       = (let score = balance_score ?res
          in if score \<ge> 70 then very_unfavorable_to_employee
             else if score \<ge> 60 then unfavorable_to_employee
             else if score \<ge> 40 then balanced
             else if score \<ge> 30 then unfavorable_to_employer
             else very_unfavorable_to_employer)"
    by (simp add: calculate_power_score_fields balance_level_of_def Let_def)
  have e: "balance_score (calculate_power_score 0 0) = 50"
    "balance_level (calculate_power_score 0 0) = balanced"
    by (simp_all add: calculate_power_score_fields percentage_score_def balance_level_of_def)
  from a b c d e show ?thesis by blast
qed

theorem power_score_nearest_witness:
  "\<bar>of_int (balance_score (calculate_power_score 70 30)) - exact_percentage 70 30\<bar> \<le> 1 / 2
   \<and> balance_score (calculate_power_score 70 30) = 70
   \<and> balance_level (calculate_power_score 70 30) = very_unfavorable_to_employee"
proof -
  have x: "exact_percentage 70 30 = 70"
    by (simp add: exact_percentage_def)
  have h: "\<not> halfway (exact_percentage 70 30)"
    by (simp add: halfway_def x)
  have r: "round_half_even (exact_percentage 70 30) = 70"
    by (simp add: x round_half_even_def)
  from power_score_nearest [of 70 30] h r show ?thesis
    by (simp add: Let_def x)
qed

section \<open>Equal weighted sums\<close>

lemma fl_pos:
  assumes "0 < x"
  shows "0 < fl x"
proof -
  let ?u = "(2 :: rat) powi (binexp x - 52)"
  have u: "0 < ?u" by simp
  have "?u \<le> 2 powi binexp x"
    by (intro power_int_increasing) simp_all
  also have "\<dots> \<le> x" using assms by (rule binexp_le)
  finally have "1 \<le> x / ?u" using u by simp
  then have "1 \<le> \<lfloor>x / ?u\<rfloor>" by simp
  moreover have "\<lfloor>x / ?u\<rfloor> \<le> round_half_even (x / ?u)"
    by (cases "x / ?u" rule: round_half_even_cases) simp_all
  ultimately have "0 < round_half_even (x / ?u)" by linarith
  then show ?thesis
    using u by (simp add: fl_pos_eq [OF assms])
qed

lemma power_weight_pos:
  "0 < dict_get pa_severity_weights s (fl 1)"
  by (simp add: dict_get_def pa_severity_weights_def fl_vals)

lemma fadd_pos:
  assumes "0 \<le> a" and "0 < b"
  shows "0 < fadd a b"
  using assms by (simp add: fadd_def fl_pos)

lemma weighted_fold_pos:
  assumes "0 < acc"
  shows "0 < foldl (\<lambda>acc it. fadd acc (dict_get pa_severity_weights
                                  (item_get (severity it) ''medium'') (fl 1))) acc items"
  using assms
proof (induction items arbitrary: acc)
  case Nil
  then show ?case by simp
next
  case (Cons it items)
  have "0 < fadd acc (dict_get pa_severity_weights (item_get (severity it) ''medium'') (fl 1))"
    using Cons.prems power_weight_pos by (intro fadd_pos) simp_all
  then show ?case
    using Cons.IH by simp
qed

lemma weighted_sum_pos:
  assumes "items \<noteq> []"
  shows "0 < weighted_sum items"
proof -
  obtain it rest where i: "items = it # rest"
    using assms by (cases items) auto
  have "0 < fadd 0 (dict_get pa_severity_weights (item_get (severity it) ''medium'') (fl 1))"
    using power_weight_pos by (intro fadd_pos) simp_all
  then show ?thesis
    unfolding weighted_sum_def i foldl_Cons by (rule weighted_fold_pos)
qed

text \<open>
  C7, amended. For all employer-item and employee-item lists whose severity-weighted
  sums are equal, and which are not both empty, the severity-weighted balance
  computation yields the balance ratio 1.0, the level balanced and the fairness score 90.
\<close>

theorem equal_sums_balanced:
  assumes "weighted_sum employer_items = weighted_sum employee_items"
    and "employer_items \<noteq> [] \<or> employee_items \<noteq> []"
  shows "balance_ratio (calculate_power_balance_weighted employer_items employee_items) = 1
   \<and> power_level (calculate_power_balance_weighted employer_items employee_items)
       = level_balanced
   \<and> fairness_score (calculate_power_balance_weighted employer_items employee_items) = 90"
proof -
  have "0 < weighted_sum employer_items"
    using assms weighted_sum_pos [of employer_items] weighted_sum_pos [of employee_items]
    by auto
  then have "weighted_sum employer_items \<noteq> 0"
    by simp
  with assms(1) show ?thesis
    by (rule equal_nonzero_sums_balanced)
qed

theorem equal_sums_balanced_witness:
  "balance_ratio (calculate_power_balance_weighted [power_item ''high'']
                    [power_item ''medium'', power_item ''medium'']) = 1
   \<and> power_level (calculate_power_balance_weighted [power_item ''high'']
                    [power_item ''medium'', power_item ''medium'']) = level_balanced
   \<and> fairness_score (calculate_power_balance_weighted [power_item ''high'']
                    [power_item ''medium'', power_item ''medium'']) = 90"
  using equal_sums_balanced
    [of "[power_item ''high'']" "[power_item ''medium'', power_item ''medium'']"]
  by (simp add: weighted_sum_single_high weighted_sum_two_medium)

end
